theory Spec2Isabelle
  imports Complex_Main "HOL-Library.Sublist"
begin

section \<open>Python values\<close>

text \<open>
  A Python \<^verbatim>\<open>str\<close> is a sequence of Unicode code points, so it is modelled as a list of
  naturals; \<open>str\<close> turns an ASCII literal of the source into that representation.
\<close>

type_synonym pystr = "nat list"

definition str :: "string \<Rightarrow> pystr" where
  "str s = map of_char s"

text \<open>
  \<^verbatim>\<open>str.strip()\<close> without arguments removes leading and trailing whitespace, where
  whitespace is what \<^verbatim>\<open>str.isspace\<close> accepts: the code points below.
\<close>

definition isspace :: "nat \<Rightarrow> bool" where
  "isspace c = (c \<in> set [0x09, 0x0A, 0x0B, 0x0C, 0x0D, 0x1C, 0x1D, 0x1E, 0x1F, 0x20,
     0x85, 0xA0, 0x1680, 0x2000, 0x2001, 0x2002, 0x2003, 0x2004, 0x2005, 0x2006, 0x2007,
     0x2008, 0x2009, 0x200A, 0x2028, 0x2029, 0x202F, 0x205F, 0x3000])"

definition strip :: "pystr \<Rightarrow> pystr" where
  "strip s = rev (dropWhile isspace (rev (dropWhile isspace s)))"

text \<open>
  The values \<^verbatim>\<open>json.loads\<close> and \<^verbatim>\<open>request.get_json()\<close> produce: \<^verbatim>\<open>None\<close>,
  \<^verbatim>\<open>bool\<close>, \<^verbatim>\<open>int\<close>, \<^verbatim>\<open>float\<close>, \<^verbatim>\<open>str\<close>, \<^verbatim>\<open>list\<close> and \<^verbatim>\<open>dict\<close>. A dict keeps its
  items in insertion order with distinct keys; a key is looked up with \<open>map_of\<close>.
\<close>

datatype pyfloat = Finite real | PosInf | NegInf | NaN

datatype json =
    JNull
  | JBool bool
  | JInt int
  | JFloat pyfloat
  | JStr pystr
  | JList "json list"
  | JDict "(pystr \<times> json) list"

fun type_name :: "json \<Rightarrow> string" where
  "type_name JNull = ''NoneType''"
| "type_name (JBool _) = ''bool''"
| "type_name (JInt _) = ''int''"
| "type_name (JFloat _) = ''float''"
| "type_name (JStr _) = ''str''"
| "type_name (JList _) = ''list''"
| "type_name (JDict _) = ''dict''"

text \<open>
  Exceptions are values. Every class below derives from \<^verbatim>\<open>Exception\<close>; \<open>message\<close> is
  what \<^verbatim>\<open>str(e)\<close> and an f-string show. \<open>ProviderError\<close> stands for whatever the
  client library raises when the call fails: an API error, a network error, a timeout.
  \<open>RecursionError\<close> is what the interpreter raises at its recursion limit.
\<close>

datatype py_exception =
    AttributeError pystr
  | TypeError pystr
  | JSONDecodeError pystr
  | ProviderError pystr
  | RecursionError pystr

fun message :: "py_exception \<Rightarrow> pystr" where
  "message (AttributeError m) = m"
| "message (TypeError m) = m"
| "message (JSONDecodeError m) = m"
| "message (ProviderError m) = m"
| "message (RecursionError m) = m"

definition no_attribute :: "json \<Rightarrow> string \<Rightarrow> py_exception" where
  "no_attribute v a =
     AttributeError (str [CHR 0x27] @ str (type_name v) @ str [CHR 0x27] @
       str '' object has no attribute '' @ str [CHR 0x27] @ str a @ str [CHR 0x27])"

text \<open>\<^verbatim>\<open>d.get(k, default)\<close>: only a dict has the method.\<close>

definition py_get :: "json \<Rightarrow> pystr \<Rightarrow> json \<Rightarrow> py_exception + json" where
  "py_get d k dflt =
     (case d of
        JDict kvs \<Rightarrow> Inr (case map_of kvs k of None \<Rightarrow> dflt | Some v \<Rightarrow> v)
      | _ \<Rightarrow> Inl (no_attribute d ''get''))"

text \<open>\<^verbatim>\<open>v.strip()\<close>: only a str has the method.\<close>

definition py_strip :: "json \<Rightarrow> py_exception + pystr" where
  "py_strip v =
     (case v of
        JStr s \<Rightarrow> Inr (strip s)
      | _ \<Rightarrow> Inl (no_attribute v ''strip''))"

text \<open>
  How deeply the containers of a value are nested: a scalar has depth 0, a list or a
  dict one more than its deepest item.
\<close>

fun depth :: "json \<Rightarrow> nat" where
  "depth (JList vs) = Suc (fold max (map depth vs) 0)"
| "depth (JDict kvs) = Suc (fold max (map (\<lambda>(k, v). depth v) kvs) 0)"
| "depth _ = 0"

section \<open>The structured-output schema\<close>

text \<open>
  \<^verbatim>\<open>types.Type\<close> and the fields of \<^verbatim>\<open>types.Schema\<close> that the source sets; a field
  it leaves out is \<open>None\<close> or empty.
\<close>

datatype schema_type =
  TYPE_UNSPECIFIED | STRING | NUMBER | INTEGER | BOOLEAN | ARRAY | OBJECT | NULL

datatype schema =
  Schema (stype: schema_type) (description: "pystr option") (items: "schema option")
    (properties: "(pystr \<times> schema) list") (required: "pystr list")

definition get_medical_schema :: schema where
  "get_medical_schema =
     Schema OBJECT None None
       [(str ''query'',
           Schema STRING (Some (str ''The original user query.'')) None [] []),
        (str ''potential_condition'',
           Schema STRING
             (Some (str ''The general condition or topic related to the query.''))
             None [] []),
        (str ''summary'',
           Schema STRING (Some (str ''A concise educational summary of the topic.''))
             None [] []),
        (str ''common_symptoms'',
           Schema ARRAY
             (Some (str ''A list of common symptoms associated with the condition.''))
             (Some (Schema STRING None None [] [])) [] []),
        (str ''recommended_actions'',
           Schema ARRAY
             (Some (str ''General advice for next steps, such as resting or consulting a doctor.''))
             (Some (Schema STRING None None [] [])) [] []),
        (str ''important_disclaimer'',
           Schema STRING
             (Some (str ''A mandatory safety warning that this is AI medical advice But go to the doctor for more appropriate answers.''))
             None [] [])]
       [str ''query'', str ''potential_condition'', str ''summary'',
        str ''important_disclaimer'']"

text \<open>A field is a list of strings when it is an array whose items are strings.\<close>

definition list_of_string :: "schema \<Rightarrow> bool" where
  "list_of_string s =
     (stype s = ARRAY \<and> (case items s of None \<Rightarrow> False | Some i \<Rightarrow> stype i = STRING))"

section \<open>The prompt\<close>

text \<open>
  The f-string of \<^verbatim>\<open>create_medical_prompt\<close>: the literal text before the
  placeholder, the user's input, the literal text after it.
\<close>

definition create_medical_prompt :: "pystr \<Rightarrow> pystr" where
  \<open>create_medical_prompt user_input =
     str ''\<newline>    You are a non-diagnostic medical information assistant. Your goal is to provide general, solution, educational information based on a user's health-related query.\<newline>\<newline>    **CRITICAL SAFETY WARNING:** You must include a prominent and specific legal disclaimer in the 'important_disclaimer' field. This information is NOT medical advice, diagnosis, or treatment and should not replace consultation with a qualified healthcare professional.\<newline>\<newline>    Based on the user's input: "''
     @ user_input @
     str ''". Generate a detailed, educational response strictly in a single JSON block following the provided schema.\<newline>    ''\<close>

text \<open>
  The sentence of the prompt that directs the model to fill the disclaimer field with a
  safety warning.
\<close>

definition disclaimer_directive :: pystr where
  \<open>disclaimer_directive = str ''**CRITICAL SAFETY WARNING:** You must include a prominent and specific legal disclaimer in the 'important_disclaimer' field.''\<close>

section \<open>The outside world\<close>

text \<open>
  What the handler sends to \<^verbatim>\<open>gemini_client.models.generate_content\<close>, and what comes
  back: a response whose \<^verbatim>\<open>.text\<close> is a string or \<^verbatim>\<open>None\<close>, or an exception.
\<close>

record generate_content_config =
  response_mime_type :: pystr
  response_schema :: schema

record generate_content_call =
  model :: pystr
  contents :: "pystr list"
  config :: generate_content_config

datatype llm_outcome = Returns "pystr option" | Raises py_exception

text \<open>
  The provider is opaque. Its answer may depend on the request and on how many calls it
  has already received, so a second call could be answered differently from the first.
\<close>

type_synonym provider = "nat \<Rightarrow> generate_content_call \<Rightarrow> llm_outcome"

text \<open>
  The effects of a request: the calls made to the provider, in order, and the lines
  printed.
\<close>

record world =
  llm_calls :: "generate_content_call list"
  stdout :: "pystr list"

definition generate_content ::
  "provider \<Rightarrow> generate_content_call \<Rightarrow> world \<Rightarrow> llm_outcome \<times> world" where
  "generate_content client call w =
     (client (length (llm_calls w)) call, w\<lparr>llm_calls := llm_calls w @ [call]\<rparr>)"

definition print :: "pystr \<Rightarrow> world \<Rightarrow> world" where
  "print line w = w\<lparr>stdout := stdout w @ [line]\<rparr>"

text \<open>
  What the handler reads from the process it runs in: the client made at startup, the
  JSON parser of the standard library, and the room the interpreter's recursion limit
  leaves to the JSON encoder. The parser is taken as given: \<open>Inl\<close> is the exception it
  raises on a text it does not accept. \<open>encoder_depth\<close> is the number of nested
  containers the encoder can enter below the dict it is given.
\<close>

record env =
  gemini_client :: provider
  json_parse :: "pystr \<Rightarrow> py_exception + json"
  encoder_depth :: nat

text \<open>
  \<^verbatim>\<open>json.loads\<close> of the response's text. A text of \<^verbatim>\<open>None\<close> is a \<^verbatim>\<open>TypeError\<close>.
  Python's decoder accepts three constants that the JSON grammar does not have,
  \<^verbatim>\<open>NaN\<close>, \<^verbatim>\<open>Infinity\<close> and \<^verbatim>\<open>-Infinity\<close>, and returns the float; every other text
  is left to the parser.
\<close>

definition json_loads :: "env \<Rightarrow> pystr option \<Rightarrow> py_exception + json" where
  "json_loads e text =
     (case text of
        None \<Rightarrow>
          Inl (TypeError (str ''the JSON object must be str, bytes or bytearray, not NoneType''))
      | Some t \<Rightarrow>
          if t = str ''NaN'' then Inr (JFloat NaN)
          else if t = str ''Infinity'' then Inr (JFloat PosInf)
          else if t = str ''-Infinity'' then Inr (JFloat NegInf)
          else json_parse e t)"

section \<open>The routes\<close>

text \<open>
  \<^verbatim>\<open>jsonify\<close> serialises the dict it is given. The encoder enters one level of recursion
  for each nested container and raises \<^verbatim>\<open>RecursionError\<close> when the value is nested more
  deeply than the recursion limit allows. A serialised response is represented by the
  dict it was made from.
\<close>

definition jsonify :: "env \<Rightarrow> json \<Rightarrow> py_exception + json" where
  "jsonify e d =
     (if depth d \<le> Suc (encoder_depth e) then Inr d
      else Inl (RecursionError
             (str ''maximum recursion depth exceeded while encoding a JSON object'')))"

text \<open>
  \<^verbatim>\<open>return jsonify(d), status\<close>: the response and its status code, or the exception
  that \<^verbatim>\<open>jsonify\<close> raised.
\<close>

type_synonym response = "json \<times> nat"

definition respond ::
  "env \<Rightarrow> json \<Rightarrow> nat \<Rightarrow> world \<Rightarrow> (py_exception + response) \<times> world" where
  "respond e d status w =
     (case jsonify e d of
        Inl ex \<Rightarrow> (Inl ex, w)
      | Inr body \<Rightarrow> (Inr (body, status), w))"

definition home :: "env \<Rightarrow> world \<Rightarrow> (py_exception + response) \<times> world" where
  "home e w =
     respond e
       (JDict [(str ''message'',
          JStr (str ''Medical Assistant Backend is running. Endpoint: /api/get-medical-info''))])
       200 w"

text \<open>
  The arguments of the call to the provider: the model name, the built prompt as the
  only content, and the configuration asking for JSON that follows the schema.
\<close>

definition medical_call :: "pystr \<Rightarrow> generate_content_call" where
  "medical_call user_prompt =
     (let system_prompt = create_medical_prompt user_prompt;
          config = \<lparr>response_mime_type = str ''application/json'',
                    response_schema = get_medical_schema\<rparr>
      in \<lparr>model = str ''gemini-2.5-flash'', contents = [system_prompt], config = config\<rparr>)"

text \<open>
  The body of the \<^verbatim>\<open>try\<close> block of \<^verbatim>\<open>get_medical_info\<close>: the call to the
  provider, \<^verbatim>\<open>json.loads\<close> of its text, and the \<^verbatim>\<open>return jsonify(...)\<close>. \<open>Inl\<close> is an
  exception raised by any of the three, \<open>Inr\<close> the response returned.
\<close>

definition medical_info_attempt ::
  "env \<Rightarrow> pystr \<Rightarrow> world \<Rightarrow> (py_exception + response) \<times> world" where
  "medical_info_attempt e user_prompt w =
     (let (gemini_response, w') =
            generate_content (gemini_client e) (medical_call user_prompt) w
      in case gemini_response of
           Raises ex \<Rightarrow> (Inl ex, w')
         | Returns text \<Rightarrow>
             (case json_loads e text of
                Inl ex \<Rightarrow> (Inl ex, w')
              | Inr response_data \<Rightarrow>
                  respond e
                    (JDict [(str ''success'', JBool True), (str ''data'', response_data)])
                    200 w'))"

text \<open>
  \<^verbatim>\<open>get_medical_info\<close>, given what \<^verbatim>\<open>request.get_json()\<close> returned. \<open>Inl\<close> is an
  exception that leaves the view uncaught; \<open>Inr\<close> is the response the view returns.
\<close>

definition get_medical_info ::
  "env \<Rightarrow> json \<Rightarrow> world \<Rightarrow> (py_exception + response) \<times> world" where
  "get_medical_info e data w =
     (case py_get data (str ''prompt'') (JStr []) of
        Inl ex \<Rightarrow> (Inl ex, w)
      | Inr p \<Rightarrow>
          (case py_strip p of
             Inl ex \<Rightarrow> (Inl ex, w)
           | Inr user_prompt \<Rightarrow>
               if user_prompt = [] then
                 respond e
                   (JDict [(str ''error'', JStr (str ''Missing 'prompt' in request body.''))])
                   400 w
               else
                 (case medical_info_attempt e user_prompt w of
                    (Inr r, w') \<Rightarrow> (Inr r, w')
                  | (Inl ex, w') \<Rightarrow>
                      respond e
                        (JDict [(str ''error'',
                           JStr (str ''Failed to get medical information. Detail: ''
                                 @ message ex))])
                        500
                        (print (str ''Error during API call or processing: '' @ message ex)
                           w'))))"

text \<open>
  The two routes the module registers, and the view each one runs. A request to any
  other path or method is answered by the framework and runs no code of the module.
\<close>

datatype request = GET_root | POST_get_medical_info json

definition dispatch ::
  "env \<Rightarrow> request \<Rightarrow> world \<Rightarrow> (py_exception + response) \<times> world" where
  "dispatch e req w =
     (case req of
        GET_root \<Rightarrow> home e w
      | POST_get_medical_info data \<Rightarrow> get_medical_info e data w)"

fun serve ::
  "env \<Rightarrow> request list \<Rightarrow> world \<Rightarrow> (py_exception + response) list \<times> world" where
  "serve e [] w = ([], w)"
| "serve e (req # reqs) w =
     (let (r, w') = dispatch e req w; (rs, w'') = serve e reqs w' in (r # rs, w''))"

section \<open>Startup\<close>

text \<open>
  The module's top-level code. \<open>environ\<close> is the environment \<^verbatim>\<open>os.getenv\<close> reads, after
  \<^verbatim>\<open>load_dotenv()\<close> has run; \<open>Client\<close> is the constructor of the provider's client,
  which returns the client or raises. \<^verbatim>\<open>exit(1)\<close> ends the process with status 1.
\<close>

datatype process = Exited nat | Running provider

definition startup ::
  "(pystr \<rightharpoonup> pystr) \<Rightarrow> (pystr \<Rightarrow> py_exception + provider) \<Rightarrow> world \<Rightarrow> process \<times> world" where
  "startup environ Client w =
     (case environ (str ''GEMINI_API_KEY'') of
        None \<Rightarrow> (Exited 1, print (str ''FATAL ERROR: GEMINI_API_KEY not found. Exiting.'') w)
      | Some GEMINI_API_KEY \<Rightarrow>
          if GEMINI_API_KEY = [] then
            (Exited 1, print (str ''FATAL ERROR: GEMINI_API_KEY not found. Exiting.'') w)
          else
            (case Client GEMINI_API_KEY of
               Inl ex \<Rightarrow>
                 (Exited 1, print (str ''Error initializing Gemini client: '' @ message ex) w)
             | Inr client \<Rightarrow> (Running client, w)))"

text \<open>
  The process as a whole: startup, then the requests it is sent, one after the other,
  with the parser and the encoder's room of the interpreter it runs on.
  \<open>Inl\<close> is the exit status of a process that did not start; \<open>Inr\<close> lists the outcome
  of each request.
\<close>

definition program ::
  "(pystr \<rightharpoonup> pystr) \<Rightarrow> (pystr \<Rightarrow> py_exception + provider) \<Rightarrow>
   (pystr \<Rightarrow> py_exception + json) \<Rightarrow> nat \<Rightarrow> request list \<Rightarrow> world \<Rightarrow>
   (nat + (py_exception + response) list) \<times> world" where
  "program environ Client parse room reqs w =
     (case startup environ Client w of
        (Exited status, w') \<Rightarrow> (Inl status, w')
      | (Running client, w') \<Rightarrow>
          (let (rs, w'') =
                 serve \<lparr>gemini_client = client, json_parse = parse, encoder_depth = room\<rparr>
                   reqs w'
           in (Inr rs, w'')))"

section \<open>Inputs for the examples\<close>

text \<open>
  A fresh world, three providers (one that answers every call with a fixed text, one
  whose response has no text, one that always raises), and two parsers (one that
  accepts every text as a fixed value, one that rejects every text), and the value of
  \<open>n + 1\<close> lists nested in one another, which is what a text of \<open>n + 1\<close> opening
  brackets followed by as many closing ones stands for.
\<close>

definition fresh :: world where
  "fresh = \<lparr>llm_calls = [], stdout = []\<rparr>"

definition answering :: "pystr \<Rightarrow> provider" where
  "answering t = (\<lambda>n call. Returns (Some t))"



definition parsing_as :: "json \<Rightarrow> pystr \<Rightarrow> py_exception + json" where
  "parsing_as v = (\<lambda>t. Inr v)"


fun nested :: "nat \<Rightarrow> json" where
  "nested 0 = JList []"
| "nested (Suc n) = JList [nested n]"

definition brackets :: "nat \<Rightarrow> pystr" where
  "brackets n = replicate n 0x5B @ replicate n 0x5D"

section \<open>Supporting lemmas\<close>

text \<open>Stripping leaves nothing exactly when every character is whitespace.\<close>

lemma strip_eq_Nil_iff: "strip s = [] \<longleftrightarrow> list_all isspace s"
proof
  assume "strip s = []"
  then have a: "\<forall>c \<in> set (dropWhile isspace s). isspace c"
    by (simp add: strip_def)
  have "dropWhile isspace s = []"
  proof (rule ccontr)
    assume ne: "dropWhile isspace s \<noteq> []"
    then have "\<not> isspace (hd (dropWhile isspace s))" by (rule hd_dropWhile)
    moreover from ne have "hd (dropWhile isspace s) \<in> set (dropWhile isspace s)"
      by (rule hd_in_set)
    ultimately show False using a by blast
  qed
  then show "list_all isspace s"
    by (simp add: list_all_iff)
next
  assume "list_all isspace s"
  then have h: "dropWhile isspace s = []"
    by (simp add: list_all_iff)
  show "strip s = []"
    by (simp only: strip_def h) simp
qed

lemma str_append: "str a @ str b = str (a @ b)"
  by (simp add: str_def)

lemma strip_headache:
  "strip (str ''  I have a headache and fever '') = str ''I have a headache and fever''"
  by (simp add: strip_def str_def isspace_def)

lemma str_headache_nonempty: "str ''I have a headache and fever'' \<noteq> []"
  by (simp add: str_def)

text \<open>
  A dict with one string in it is always serialised, so the responses that carry a
  message are returned as they are.
\<close>

lemma respond_flat:
  "respond e (JDict [(k, JStr s)]) status w = (Inr (JDict [(k, JStr s)], status), w)"
  by (simp add: respond_def jsonify_def)

text \<open>The response that carries the parsed value is serialised when the value is not
  nested more deeply than the encoder can go.\<close>

lemma respond_data:
  "respond e (JDict [(str ''success'', JBool True), (str ''data'', v)]) 200 w =
     (if depth v \<le> encoder_depth e
      then (Inr (JDict [(str ''success'', JBool True), (str ''data'', v)], 200), w)
      else (Inl (RecursionError
              (str ''maximum recursion depth exceeded while encoding a JSON object'')), w))"
  by (simp add: respond_def jsonify_def)

lemma depth_nested: "depth (nested n) = Suc n"
  by (induction n) simp_all

lemma brackets_loads:
  assumes "0 < n"
  shows "json_loads e (Some (brackets n)) = json_parse e (brackets n)"
  using assms by (cases n) (simp_all add: json_loads_def brackets_def str_def)

text \<open>On a dict, \<^verbatim>\<open>data.get('prompt', '')\<close> never raises.\<close>

lemma get_prompt_dict:
  "py_get (JDict kvs) (str ''prompt'') (JStr []) =
     Inr (case map_of kvs (str ''prompt'') of None \<Rightarrow> JStr [] | Some v \<Rightarrow> v)"
  by (simp add: py_get_def)

text \<open>
  When the body is a dict whose prompt is absent, or is a string that is empty or all
  whitespace, the view answers 400 with the fixed message and leaves the world as it
  was: no call to the provider, nothing printed.
\<close>

lemma dict_missing_prompt_400:
  assumes "map_of kvs (str ''prompt'') = None \<or>
           (\<exists>s. map_of kvs (str ''prompt'') = Some (JStr s) \<and> list_all isspace s)"
  shows \<open>get_medical_info e (JDict kvs) w =
           (Inr (JDict [(str ''error'', JStr (str ''Missing 'prompt' in request body.''))],
                 400), w)\<close>
  using assms
  by (auto simp: get_medical_info_def get_prompt_dict py_strip_def strip_eq_Nil_iff
      respond_flat)

text \<open>A body that is not a dict raises at \<^verbatim>\<open>data.get\<close>, whatever else is true.\<close>

lemma non_dict_raises:
  assumes "\<And>kvs. data \<noteq> JDict kvs"
  shows "get_medical_info e data w = (Inl (no_attribute data ''get''), w)"
  using assms by (cases data) (auto simp: get_medical_info_def py_get_def)

text \<open>A prompt that is present and not a string raises at \<^verbatim>\<open>.strip()\<close>.\<close>

lemma non_str_prompt_raises:
  assumes "map_of kvs (str ''prompt'') = Some v" and "\<And>s. v \<noteq> JStr s"
  shows "get_medical_info e (JDict kvs) w = (Inl (no_attribute v ''strip''), w)"
  using assms by (cases v) (auto simp: get_medical_info_def get_prompt_dict py_strip_def)

text \<open>With a prompt that passes validation, the view is its \<^verbatim>\<open>try\<close> statement.\<close>

lemma valid_prompt_attempt:
  assumes "map_of kvs (str ''prompt'') = Some (JStr s)" and "strip s \<noteq> []"
  shows "get_medical_info e (JDict kvs) w =
    (case medical_info_attempt e (strip s) w of
       (Inr r, w') \<Rightarrow> (Inr r, w')
     | (Inl ex, w') \<Rightarrow>
         (Inr (JDict [(str ''error'',
                 JStr (str ''Failed to get medical information. Detail: '' @ message ex))],
               500),
          print (str ''Error during API call or processing: '' @ message ex) w'))"
  using assms
  by (simp add: get_medical_info_def get_prompt_dict py_strip_def respond_flat
      split: prod.splits sum.splits)

lemma attempt_unfold:
  "medical_info_attempt e p w =
     (case gemini_client e (length (llm_calls w)) (medical_call p) of
        Raises ex \<Rightarrow> (Inl ex, w\<lparr>llm_calls := llm_calls w @ [medical_call p]\<rparr>)
      | Returns text \<Rightarrow>
          (case json_loads e text of
             Inl ex \<Rightarrow> (Inl ex, w\<lparr>llm_calls := llm_calls w @ [medical_call p]\<rparr>)
           | Inr v \<Rightarrow>
               if depth v \<le> encoder_depth e then
                 (Inr (JDict [(str ''success'', JBool True), (str ''data'', v)], 200),
                  w\<lparr>llm_calls := llm_calls w @ [medical_call p]\<rparr>)
               else
                 (Inl (RecursionError
                    (str ''maximum recursion depth exceeded while encoding a JSON object'')),
                  w\<lparr>llm_calls := llm_calls w @ [medical_call p]\<rparr>)))"
  by (simp add: medical_info_attempt_def generate_content_def respond_data
      split: llm_outcome.splits sum.splits)

text \<open>
  With a prompt that passes validation no exception leaves the view: it answers 200 or
  500, whatever the provider and the parser do.
\<close>

lemma valid_prompt_responds:
  assumes "map_of kvs (str ''prompt'') = Some (JStr s)" and "strip s \<noteq> []"
  shows "\<exists>body status. fst (get_medical_info e (JDict kvs) w) = Inr (body, status)
           \<and> (status = 200 \<or> status = 500)"
  using assms
  by (auto simp: valid_prompt_attempt attempt_unfold split: llm_outcome.splits sum.splits)

text \<open>
  With a prompt that passes validation, a text that \<^verbatim>\<open>json.loads\<close> accepts, and a
  parsed value nested more deeply than the encoder can go, \<^verbatim>\<open>jsonify\<close> raises inside
  the \<^verbatim>\<open>try\<close>: the view prints the error and answers 500.
\<close>

lemma unserialisable_500:
  assumes "map_of kvs (str ''prompt'') = Some (JStr s)" and "strip s \<noteq> []"
    and "gemini_client e (length (llm_calls w)) (medical_call (strip s)) = Returns (Some t)"
    and "json_loads e (Some t) = Inr v"
    and "encoder_depth e < depth v"
  shows "get_medical_info e (JDict kvs) w =
           (Inr (JDict [(str ''error'',
                   JStr (str ''Failed to get medical information. Detail: '' @
                     str ''maximum recursion depth exceeded while encoding a JSON object''))],
                 500),
            print (str ''Error during API call or processing: '' @
                     str ''maximum recursion depth exceeded while encoding a JSON object'')
              (w\<lparr>llm_calls := llm_calls w @ [medical_call (strip s)]\<rparr>))"
  using assms by (simp add: valid_prompt_attempt attempt_unfold)


text \<open>The literal text before the placeholder, cut around the directive.\<close>

lemma prompt_literal_split:
  \<open>str ''\<newline>    You are a non-diagnostic medical information assistant. Your goal is to provide general, solution, educational information based on a user's health-related query.\<newline>\<newline>    **CRITICAL SAFETY WARNING:** You must include a prominent and specific legal disclaimer in the 'important_disclaimer' field. This information is NOT medical advice, diagnosis, or treatment and should not replace consultation with a qualified healthcare professional.\<newline>\<newline>    Based on the user's input: "'' =
   str ''\<newline>    You are a non-diagnostic medical information assistant. Your goal is to provide general, solution, educational information based on a user's health-related query.\<newline>\<newline>    '' @
   disclaimer_directive @
   str '' This information is NOT medical advice, diagnosis, or treatment and should not replace consultation with a qualified healthcare professional.\<newline>\<newline>    Based on the user's input: "''\<close>
  by (simp add: disclaimer_directive_def str_append)

lemma startup_exits:
  assumes "environ (str ''GEMINI_API_KEY'') = None \<or>
           (\<exists>key ex. environ (str ''GEMINI_API_KEY'') = Some key \<and> Client key = Inl ex)"
  shows "\<exists>w'. startup environ Client w = (Exited 1, w')"
  using assms by (auto simp: startup_def)

text \<open>The process serves requests only with a key that is set, not empty, and accepted.\<close>

lemma startup_running_iff:
  "fst (startup environ Client w) = Running client \<longleftrightarrow>
     (\<exists>key. environ (str ''GEMINI_API_KEY'') = Some key \<and> key \<noteq> [] \<and>
        Client key = Inr client)"
  by (auto simp: startup_def split: option.splits sum.splits)

section \<open>The claims\<close>

text \<open>
  Claim C1: every POST to \<^verbatim>\<open>/api/get-medical-info\<close> whose body has no \<^verbatim>\<open>prompt\<close>
  field, or an empty or whitespace-only one, is answered with 400 and
  \<^verbatim>\<open>{"error": "Missing 'prompt' in request body."}\<close>, without a call to the provider.

  For a body that is a dict this is \<open>dict_missing_prompt_400\<close>. The body \<^verbatim>\<open>null\<close> has
  no \<^verbatim>\<open>prompt\<close> field either, and there the view does not reach its validation:
  \<^verbatim>\<open>data.get\<close> raises \<^verbatim>\<open>AttributeError\<close>, which nothing in the view catches, so the
  answer is not the 400 response. The provider is not called.
\<close>

theorem null_body_not_400:
  \<open>fst (get_medical_info e JNull w) = Inl (no_attribute JNull ''get'')
   \<and> fst (get_medical_info e JNull w) \<noteq>
       Inr (JDict [(str ''error'', JStr (str ''Missing 'prompt' in request body.''))], 400)
   \<and> llm_calls (snd (get_medical_info e JNull w)) = llm_calls w\<close>
  by (simp add: get_medical_info_def py_get_def)

text \<open>
  Claim C2, as the code has it: with a prompt that is not empty after stripping, when
  the provider returns text that \<^verbatim>\<open>json.loads\<close> parses to \<open>v\<close>, and \<open>v\<close> is not
  nested more deeply than the encoder of \<^verbatim>\<open>jsonify\<close> can go, the view answers 200 with
  \<^verbatim>\<open>{"success": true, "data": v}\<close>.
\<close>

theorem parsed_json_200:
  assumes "map_of kvs (str ''prompt'') = Some (JStr s)" and "strip s \<noteq> []"
    and "gemini_client e (length (llm_calls w)) (medical_call (strip s)) = Returns (Some t)"
    and "json_loads e (Some t) = Inr v"
    and "depth v \<le> encoder_depth e"
  shows "fst (get_medical_info e (JDict kvs) w) =
           Inr (JDict [(str ''success'', JBool True), (str ''data'', v)], 200)"
  using assms by (simp add: valid_prompt_attempt attempt_unfold)

theorem parsed_json_200_witness:
  "fst (get_medical_info
          \<lparr>gemini_client = answering (str ''{}''), json_parse = parsing_as (JDict []),
           encoder_depth = 993\<rparr>
          (JDict [(str ''prompt'', JStr (str ''  I have a headache and fever ''))]) fresh) =
     Inr (JDict [(str ''success'', JBool True), (str ''data'', JDict [])], 200)"
proof -
  let ?e = "\<lparr>gemini_client = answering (str ''{}''), json_parse = parsing_as (JDict []),
             encoder_depth = 993\<rparr>"
  let ?s = "str ''  I have a headache and fever ''"
  have a: "map_of [(str ''prompt'', JStr ?s)] (str ''prompt'') = Some (JStr ?s)" by simp
  have b: "strip ?s \<noteq> []" by (simp add: strip_headache str_headache_nonempty)
  have c: "gemini_client ?e (length (llm_calls fresh)) (medical_call (strip ?s)) =
             Returns (Some (str ''{}''))"
    by (simp add: answering_def)
  have d: "json_loads ?e (Some (str ''{}'')) = Inr (JDict [])"
    by (simp add: json_loads_def parsing_as_def str_def)
  have f: "depth (JDict []) \<le> encoder_depth ?e" by simp
  show ?thesis by (rule parsed_json_200 [OF a b c d f])
qed

text \<open>
  Claim C2 as it is written fails where the parsed value is nested too deeply. The
  provider returns 994 opening brackets and 994 closing ones; \<^verbatim>\<open>json.loads\<close> parses
  the text to 994 nested lists; the encoder has room for 993 containers below the
  response dict, so \<^verbatim>\<open>jsonify\<close> raises inside the \<^verbatim>\<open>try\<close> and the answer is 500.
\<close>

theorem parsed_json_500_counterexample:
  "json_loads
      \<lparr>gemini_client = answering (brackets 994), json_parse = parsing_as (nested 993),
       encoder_depth = 993\<rparr>
      (Some (brackets 994)) = Inr (nested 993)
   \<and> fst (get_medical_info
          \<lparr>gemini_client = answering (brackets 994), json_parse = parsing_as (nested 993),
           encoder_depth = 993\<rparr>
          (JDict [(str ''prompt'', JStr (str ''  I have a headache and fever ''))]) fresh) =
       Inr (JDict [(str ''error'',
              JStr (str ''Failed to get medical information. Detail: '' @
                str ''maximum recursion depth exceeded while encoding a JSON object''))],
            500)"
proof -
  let ?e = "\<lparr>gemini_client = answering (brackets 994), json_parse = parsing_as (nested 993),
             encoder_depth = 993\<rparr>"
  let ?s = "str ''  I have a headache and fever ''"
  have a: "map_of [(str ''prompt'', JStr ?s)] (str ''prompt'') = Some (JStr ?s)" by simp
  have b: "strip ?s \<noteq> []" by (simp add: strip_headache str_headache_nonempty)
  have c: "gemini_client ?e (length (llm_calls fresh)) (medical_call (strip ?s)) =
             Returns (Some (brackets 994))"
    by (simp add: answering_def)
  have d: "json_loads ?e (Some (brackets 994)) = Inr (nested 993)"
    by (simp add: brackets_loads parsing_as_def)
  have f: "encoder_depth ?e < depth (nested 993)" by (simp add: depth_nested)
  show ?thesis
    using unserialisable_500 [OF a b c d f] d by simp
qed




text \<open>
  Claim C4: for every string \<open>s\<close> (so for every non-empty stripped one), the prompt
  builder, a total function with no effect and no error, gives a text that contains
  \<open>s\<close> as it is and contains the sentence directing the model to put a disclaimer in
  the \<^verbatim>\<open>important_disclaimer\<close> field.
\<close>

theorem prompt_contains_input_and_directive:
  "sublist s (create_medical_prompt s) \<and>
   sublist disclaimer_directive (create_medical_prompt s)"
proof
  show "sublist s (create_medical_prompt s)"
    unfolding create_medical_prompt_def by (rule sublist_appendI)
next
  show "sublist disclaimer_directive (create_medical_prompt s)"
    unfolding create_medical_prompt_def prompt_literal_split sublist_def
    by (metis append.assoc)
qed

text \<open>
  Claim C5: the schema builder takes no argument and reads no state, so every call gives
  the same schema. Its required fields are exactly \<^verbatim>\<open>query\<close>,
  \<^verbatim>\<open>potential_condition\<close>, \<^verbatim>\<open>summary\<close> and \<^verbatim>\<open>important_disclaimer\<close>;
  \<^verbatim>\<open>common_symptoms\<close> and \<^verbatim>\<open>recommended_actions\<close> are properties of type array of
  string and are not required.
\<close>

theorem schema_required_and_optional:
  "set (required get_medical_schema) =
     {str ''query'', str ''potential_condition'', str ''summary'',
      str ''important_disclaimer''}
   \<and> (case map_of (properties get_medical_schema) (str ''common_symptoms'') of
         None \<Rightarrow> False | Some f \<Rightarrow> list_of_string f)
   \<and> (case map_of (properties get_medical_schema) (str ''recommended_actions'') of
         None \<Rightarrow> False | Some f \<Rightarrow> list_of_string f)
   \<and> str ''common_symptoms'' \<notin> set (required get_medical_schema)
   \<and> str ''recommended_actions'' \<notin> set (required get_medical_schema)"
  by (simp add: get_medical_schema_def list_of_string_def str_def)

text \<open>
  Claim C6: some POST bodies make the view raise before its validation, so the answer
  is not the 400 response: the body \<^verbatim>\<open>null\<close> (parsed to \<^verbatim>\<open>None\<close>) raises at
  \<^verbatim>\<open>data.get\<close>, and the body \<^verbatim>\<open>{"prompt": 5}\<close> raises at \<^verbatim>\<open>.strip()\<close>. In both cases
  the exception leaves the view and the world is as it was.
\<close>

theorem malformed_body_raises:
  "get_medical_info e JNull w = (Inl (no_attribute JNull ''get''), w)
   \<and> get_medical_info e (JDict [(str ''prompt'', JInt 5)]) w =
       (Inl (no_attribute (JInt 5) ''strip''), w)"
  by (simp add: get_medical_info_def py_get_def py_strip_def)

text \<open>
  Claim C7, as the code has it: the view does not check the parsed value against the
  schema. Whatever value \<open>v\<close> the text parses to, as long as \<open>v\<close> is not nested more
  deeply than the encoder of \<^verbatim>\<open>jsonify\<close> can go, the answer is 200 with \<open>v\<close> itself
  as the \<^verbatim>\<open>data\<close> field, and the only effect is the one call to the provider: nothing
  is printed and nothing is asked again. The example takes a \<open>v\<close> without the required
  \<^verbatim>\<open>important_disclaimer\<close>.
\<close>

theorem no_revalidation:
  assumes "map_of kvs (str ''prompt'') = Some (JStr s)" and "strip s \<noteq> []"
    and "gemini_client e (length (llm_calls w)) (medical_call (strip s)) = Returns (Some t)"
    and "json_loads e (Some t) = Inr v"
    and "depth v \<le> encoder_depth e"
  shows "get_medical_info e (JDict kvs) w =
           (Inr (JDict [(str ''success'', JBool True), (str ''data'', v)], 200),
            w\<lparr>llm_calls := llm_calls w @ [medical_call (strip s)]\<rparr>)"
  using assms by (simp add: valid_prompt_attempt attempt_unfold)

theorem no_revalidation_witness:
  "str ''important_disclaimer'' \<in> set (required get_medical_schema)
   \<and> map_of [(str ''query'', JStr (str ''x''))] (str ''important_disclaimer'') = None
   \<and> get_medical_info
        \<lparr>gemini_client = answering (str ''{}''),
         json_parse = parsing_as (JDict [(str ''query'', JStr (str ''x''))]),
         encoder_depth = 993\<rparr>
        (JDict [(str ''prompt'', JStr (str ''  I have a headache and fever ''))]) fresh =
       (Inr (JDict [(str ''success'', JBool True),
                    (str ''data'', JDict [(str ''query'', JStr (str ''x''))])], 200),
        fresh\<lparr>llm_calls := [medical_call (str ''I have a headache and fever'')]\<rparr>)"
proof -
  let ?v = "JDict [(str ''query'', JStr (str ''x''))]"
  let ?e = "\<lparr>gemini_client = answering (str ''{}''), json_parse = parsing_as ?v,
             encoder_depth = 993\<rparr>"
  let ?s = "str ''  I have a headache and fever ''"
  have a: "map_of [(str ''prompt'', JStr ?s)] (str ''prompt'') = Some (JStr ?s)" by simp
  have b: "strip ?s \<noteq> []" by (simp add: strip_headache str_headache_nonempty)
  have c: "gemini_client ?e (length (llm_calls fresh)) (medical_call (strip ?s)) =
             Returns (Some (str ''{}''))"
    by (simp add: answering_def)
  have d: "json_loads ?e (Some (str ''{}'')) = Inr ?v"
    by (simp add: json_loads_def parsing_as_def str_def)
  have f: "depth ?v \<le> encoder_depth ?e" by simp
  have r: "str ''important_disclaimer'' \<in> set (required get_medical_schema)"
    by (simp add: get_medical_schema_def)
  have m: "map_of [(str ''query'', JStr (str ''x''))] (str ''important_disclaimer'') = None"
    by (simp add: str_def)
  show ?thesis
    using no_revalidation [OF a b c d f] r m by (simp add: strip_headache fresh_def)
qed

text \<open>
  Claim C7 as it is written fails where the parsed value is nested too deeply: it is
  not returned, with 200 or otherwise. The text parses to a dict whose \<^verbatim>\<open>query\<close> is
  994 nested lists; the encoder has room for 993 containers below the response dict,
  so \<^verbatim>\<open>jsonify\<close> raises inside the \<^verbatim>\<open>try\<close>: the view prints the error and answers 500.
\<close>

theorem deep_value_not_returned_counterexample:
  \<open>json_loads
      \<lparr>gemini_client = answering (str ''{"query": '' @ brackets 994 @ str ''}''),
       json_parse = parsing_as (JDict [(str ''query'', nested 993)]),
       encoder_depth = 993\<rparr>
      (Some (str ''{"query": '' @ brackets 994 @ str ''}'')) =
     Inr (JDict [(str ''query'', nested 993)])
   \<and> get_medical_info
        \<lparr>gemini_client = answering (str ''{"query": '' @ brackets 994 @ str ''}''),
         json_parse = parsing_as (JDict [(str ''query'', nested 993)]),
         encoder_depth = 993\<rparr>
        (JDict [(str ''prompt'', JStr (str ''  I have a headache and fever ''))]) fresh =
       (Inr (JDict [(str ''error'',
               JStr (str ''Failed to get medical information. Detail: '' @
                 str ''maximum recursion depth exceeded while encoding a JSON object''))],
             500),
        \<lparr>llm_calls = [medical_call (str ''I have a headache and fever'')],
         stdout = [str ''Error during API call or processing: '' @
                   str ''maximum recursion depth exceeded while encoding a JSON object'']\<rparr>)\<close>
proof -
  let ?t = \<open>str ''{"query": '' @ brackets 994 @ str ''}''\<close>
  let ?v = "JDict [(str ''query'', nested 993)]"
  let ?e = "\<lparr>gemini_client = answering ?t, json_parse = parsing_as ?v, encoder_depth = 993\<rparr>"
  let ?s = "str ''  I have a headache and fever ''"
  have a: "map_of [(str ''prompt'', JStr ?s)] (str ''prompt'') = Some (JStr ?s)" by simp
  have b: "strip ?s \<noteq> []" by (simp add: strip_headache str_headache_nonempty)
  have c: "gemini_client ?e (length (llm_calls fresh)) (medical_call (strip ?s)) =
             Returns (Some ?t)"
    by (simp add: answering_def)
  have d: "json_loads ?e (Some ?t) = Inr ?v"
    by (simp add: json_loads_def parsing_as_def str_def)
  have f: "encoder_depth ?e < depth ?v" by (simp add: depth_nested)
  show ?thesis
    using unserialisable_500 [OF a b c d f] d
    by (simp add: strip_headache fresh_def print_def)
qed



text \<open>
  Claim C9: when the API key is not in the environment, or the client's constructor
  raises, startup ends the process with status 1, which is not zero, and the process
  answers no request: the missing configuration is an exit status, never a response.
\<close>

theorem startup_refuses:
  assumes "environ (str ''GEMINI_API_KEY'') = None \<or>
           (\<exists>key ex. environ (str ''GEMINI_API_KEY'') = Some key \<and> Client key = Inl ex)"
  shows "fst (startup environ Client w) = Exited 1
         \<and> fst (program environ Client parse room reqs w) = Inl 1
         \<and> (1::nat) \<noteq> 0"
proof -
  from assms have "\<exists>w'. startup environ Client w = (Exited 1, w')"
    by (rule startup_exits)
  then obtain w' where "startup environ Client w = (Exited 1, w')"
    by blast
  then show ?thesis by (simp add: program_def)
qed

theorem startup_refuses_witness:
  "fst (startup Map.empty (\<lambda>key. Inr (answering [])) fresh) = Exited 1
   \<and> fst (program Map.empty (\<lambda>key. Inr (answering [])) (parsing_as JNull) 993
            [GET_root, POST_get_medical_info (JDict [])] fresh) = Inl 1
   \<and> fst (startup [str ''GEMINI_API_KEY'' \<mapsto> str ''k'']
            (\<lambda>key. Inl (ProviderError (str ''bad key''))) fresh) = Exited 1
   \<and> fst (program [str ''GEMINI_API_KEY'' \<mapsto> str ''k'']
            (\<lambda>key. Inl (ProviderError (str ''bad key''))) (parsing_as JNull) 993
            [GET_root, POST_get_medical_info (JDict [])] fresh) = Inl 1"
  using
    startup_refuses [of Map.empty "\<lambda>key. Inr (answering [])" fresh "parsing_as JNull" 993
      "[GET_root, POST_get_medical_info (JDict [])]"]
    startup_refuses [of "[str ''GEMINI_API_KEY'' \<mapsto> str ''k'']"
      "\<lambda>key. Inl (ProviderError (str ''bad key''))" fresh "parsing_as JNull" 993
      "[GET_root, POST_get_medical_info (JDict [])]"]
  by simp

text \<open>
  Claim C10: a GET request to \<^verbatim>\<open>/\<close> is answered with 200 and the fixed message,
  whatever the provider does: the answer holds for every environment \<open>e\<close>, and the world
  is left as it was.
\<close>

theorem home_200:
  "dispatch e GET_root w =
     (Inr (JDict [(str ''message'',
             JStr (str ''Medical Assistant Backend is running. Endpoint: /api/get-medical-info''))],
           200), w)"
  by (simp add: dispatch_def home_def respond_flat)

end
